theory Spec2Isabelle
  imports Complex_Main "HOL-Library.Char_ord" "HOL-Library.List_Lexorder"
begin

section \<open>JavaScript values\<close>

text \<open>
  The services exchange parsed JSON and object literals. A number is an IEEE double; only
  the distinction between \<open>NaN\<close> and a finite value matters to the code modelled here, so
  a finite number carries a real (infinities do not occur: no source expression divides).
\<close>

datatype number = NaN | Fin real

text \<open>
  An object is the list of its own properties in the order \<open>Object.keys\<close> enumerates
  them; its keys are distinct. \<open>JUndefined\<close> is the value of a missing property, and of
  a property an object literal sets from one.
\<close>

datatype jsval =
    JUndefined
  | JNull
  | JBool bool
  | JNum number
  | JStr string
  | JArr "jsval list"
  | JObj "(string \<times> jsval) list"

text \<open>Every \<open>throw\<close> and every rejected promise is a value of this type.\<close>

datatype error =
    Error string        \<comment> \<open>\<open>new Error(message)\<close>\<close>
  | TypeError           \<comment> \<open>property read on \<open>null\<close>/\<open>undefined\<close>, call of a non-function\<close>
  | SyntaxError         \<comment> \<open>\<open>JSON.parse\<close>, \<open>res.json()\<close>\<close>
  | RangeError          \<comment> \<open>\<open>toISOString\<close> on an invalid date\<close>
  | FetchFailed         \<comment> \<open>\<open>fetch\<close> rejected\<close>

datatype asset_type = STOCK | CRYPTO

fun truthy :: "jsval \<Rightarrow> bool" where
  "truthy JUndefined = False"
| "truthy JNull = False"
| "truthy (JBool b) = b"
| "truthy (JNum NaN) = False"
| "truthy (JNum (Fin r)) = (r \<noteq> 0)"
| "truthy (JStr s) = (s \<noteq> [])"
| "truthy (JArr xs) = True"
| "truthy (JObj kvs) = True"

text \<open>Decimal text of an array index, as template literals and \<open>Object.keys\<close> print it.\<close>

fun dec :: "nat \<Rightarrow> string" where
  "dec n = (if n < 10 then [char_of (48 + n)] else dec (n div 10) @ [char_of (48 + n mod 10)])"

declare dec.simps [simp del]

text \<open>
  \<open>v[k]\<close> for a literal property name \<open>k\<close>. The names the services read
  (\<open>'Note'\<close>, \<open>'c'\<close>, \<open>'s'\<close>, ...) are none of them inherited from a prototype, apart
  from \<open>length\<close>, which arrays and strings own.
\<close>

fun get_prop :: "jsval \<Rightarrow> string \<Rightarrow> error + jsval" where
  "get_prop JUndefined k = Inl TypeError"
| "get_prop JNull k = Inl TypeError"
| "get_prop (JObj kvs) k = Inr (case map_of kvs k of Some v \<Rightarrow> v | None \<Rightarrow> JUndefined)"
| "get_prop (JArr xs) k =
     Inr (if k = ''length'' then JNum (Fin (real (length xs))) else JUndefined)"
| "get_prop (JStr s) k =
     Inr (if k = ''length'' then JNum (Fin (real (length s))) else JUndefined)"
| "get_prop (JBool b) k = Inr JUndefined"
| "get_prop (JNum n) k = Inr JUndefined"

text \<open>\<open>v[i]\<close> for a numeric index \<open>i\<close>.\<close>

fun get_index :: "jsval \<Rightarrow> nat \<Rightarrow> error + jsval" where
  "get_index JUndefined i = Inl TypeError"
| "get_index JNull i = Inl TypeError"
| "get_index (JArr xs) i = Inr (if i < length xs then xs ! i else JUndefined)"
| "get_index (JStr s) i = Inr (if i < length s then JStr [s ! i] else JUndefined)"
| "get_index (JObj kvs) i = Inr (case map_of kvs (dec i) of Some v \<Rightarrow> v | None \<Rightarrow> JUndefined)"
| "get_index (JBool b) i = Inr JUndefined"
| "get_index (JNum n) i = Inr JUndefined"

text \<open>\<open>Object.keys(v)\<close> paired with the values \<open>v[k]\<close>.\<close>

fun entries :: "jsval \<Rightarrow> error + (string \<times> jsval) list" where
  "entries JUndefined = Inl TypeError"
| "entries JNull = Inl TypeError"
| "entries (JObj kvs) = Inr kvs"
| "entries (JArr xs) = Inr (zip (map dec [0..<length xs]) xs)"
| "entries (JStr s) = Inr (zip (map dec [0..<length s]) (map (\<lambda>c. JStr [c]) s))"
| "entries (JBool b) = Inr []"
| "entries (JNum n) = Inr []"

text \<open>\<open>o.k = v\<close> on an object: an own property keeps its place, a new one goes last.\<close>

fun set_prop :: "(string \<times> jsval) list \<Rightarrow> string \<Rightarrow> jsval \<Rightarrow> (string \<times> jsval) list" where
  "set_prop [] k v = [(k, v)]"
| "set_prop ((k', v') # kvs) k v =
     (if k' = k then (k, v) # kvs else (k', v') # set_prop kvs k v)"

text \<open>\<open>a || b\<close>.\<close>

definition js_or :: "jsval \<Rightarrow> jsval \<Rightarrow> jsval" where
  "js_or a b = (if truthy a then a else b)"

text \<open>\<open>s.includes(sub)\<close>.\<close>

fun str_includes :: "string \<Rightarrow> string \<Rightarrow> bool" where
  "str_includes [] sub = (sub = [])"
| "str_includes (c # cs) sub = (take (length sub) (c # cs) = sub \<or> str_includes cs sub)"

text \<open>\<open>s.replace('%', '')\<close>: the first occurrence only.\<close>

fun replace_percent :: "string \<Rightarrow> string" where
  "replace_percent [] = []"
| "replace_percent (c # cs) = (if c = CHR ''%'' then cs else c # replace_percent cs)"

text \<open>\<open>s.toLowerCase()\<close> on ASCII letters.\<close>

definition lower_char :: "char \<Rightarrow> char" where
  "lower_char c =
     (let n = (of_char c :: nat) in if 65 \<le> n \<and> n \<le> 90 then char_of (n + 32) else c)"

definition toLowerCase :: "string \<Rightarrow> string" where
  "toLowerCase s = map lower_char s"

text \<open>\<open>Math.floor(n / 1000)\<close> and \<open>n * 1000\<close>.\<close>

fun floor_div_1000 :: "number \<Rightarrow> number" where
  "floor_div_1000 NaN = NaN"
| "floor_div_1000 (Fin r) = Fin (of_int \<lfloor>r / 1000\<rfloor>)"

fun times_1000 :: "number \<Rightarrow> number" where
  "times_1000 NaN = NaN"
| "times_1000 (Fin r) = Fin (r * 1000)"

section \<open>The runtime and the outside world\<close>

record response =
  ok :: bool
  status :: nat
  json :: "jsval option"     \<comment> \<open>\<open>await res.json()\<close>; \<open>None\<close>: the body is not JSON\<close>

record price_row =
  ph_symbol :: string
  ph_date :: string
  ph_assetType :: asset_type
  ph_open :: number
  ph_high :: number
  ph_low :: number
  ph_close :: number
  ph_volume :: number

text \<open>
  What the code calls but does not define: built-ins of the JavaScript runtime whose
  results depend on floating point or on the calendar, the network, the configuration,
  and the services of this repository that are not among its sources
  (\<open>FinnhubService\<close>, and the database engine behind \<open>prisma\<close>). All are parameters.
\<close>

record env =
  JSON_parse :: "string \<Rightarrow> jsval option"
      \<comment> \<open>\<open>None\<close>: \<open>JSON.parse\<close> throws a SyntaxError\<close>
  JSON_stringify :: "jsval \<Rightarrow> string"
  parseFloat :: "jsval \<Rightarrow> number"
  str_to_number :: "jsval \<Rightarrow> number"
      \<comment> \<open>ToNumber on strings, arrays and objects\<close>
  str_of :: "jsval \<Rightarrow> string"
      \<comment> \<open>ToString on numbers, arrays and objects\<close>
  date_ms :: "jsval \<Rightarrow> number"
      \<comment> \<open>\<open>new Date(v).getTime()\<close>\<close>
  iso_day :: "number \<Rightarrow> string option"
      \<comment> \<open>\<open>new Date(ms).toISOString().split('T')[0]\<close>; \<open>None\<close>: RangeError\<close>
  cutoff_day :: "int \<Rightarrow> int \<Rightarrow> string option"
      \<comment> \<open>clock, days: the ISO day of (today - days); \<open>None\<close>: RangeError\<close>
  sort_by_time :: "string list \<Rightarrow> string list"
      \<comment> \<open>\<open>sort((a, b) => new Date(a).getTime() - new Date(b).getTime())\<close>\<close>
  fetch :: "nat \<Rightarrow> string \<Rightarrow> response option"
      \<comment> \<open>the n-th outbound call, to a URL; \<open>None\<close>: the promise rejects\<close>
  strict_mode :: bool
      \<comment> \<open>whether the compiled module runs in strict mode\<close>
  BINANCE_REST_BASE_URL :: string
  ALPHAVANTAGE_BASE_URL :: string
  ALPHAVANTAGE_API_KEY :: string
  finnhub_getQuote :: "string \<Rightarrow> error + jsval"
  finnhub_getCandles :: "string \<Rightarrow> string \<Rightarrow> int \<Rightarrow> int \<Rightarrow> error + jsval"
  db_ok :: "nat \<Rightarrow> price_row \<Rightarrow> bool"
      \<comment> \<open>whether the n-th write to the price table, of this row, succeeds\<close>

text \<open>ToNumber and ToString, as arithmetic and template literals apply them.\<close>

fun ToNumber :: "env \<Rightarrow> jsval \<Rightarrow> number" where
  "ToNumber e (JNum n) = n"
| "ToNumber e JUndefined = NaN"
| "ToNumber e JNull = Fin 0"
| "ToNumber e (JBool b) = Fin (if b then 1 else 0)"
| "ToNumber e v = str_to_number e v"

fun ToString :: "env \<Rightarrow> jsval \<Rightarrow> string" where
  "ToString e (JStr s) = s"
| "ToString e JUndefined = ''undefined''"
| "ToString e JNull = ''null''"
| "ToString e (JBool b) = (if b then ''true'' else ''false'')"
| "ToString e v = str_of e v"

datatype ready_state = CONNECTING | OPEN | CLOSING | CLOSED

record ws_message =
  ws_method :: string
  ws_params :: "string list"
  msg_id :: int

datatype task = Backfill string asset_type

text \<open>
  The mutable state the services share: the persisted cache table, the clock, the log of
  outbound calls, the static fields of \<open>BinanceProvider\<close>, the price-history table, and
  the promises started but not awaited.
\<close>

record world =
  cache :: "string \<rightharpoonup> (string \<times> int \<times> string)"
      \<comment> \<open>key to (payloadJson, expiresAt, source)\<close>
  clock :: int
      \<comment> \<open>\<open>Date.now()\<close>, milliseconds\<close>
  calls :: "string list"
      \<comment> \<open>the URLs fetched so far, oldest first\<close>
  memoryCache :: "string \<rightharpoonup> jsval"
  trackedSymbols :: "string list"
  ws :: "ready_state option"
  ws_sent :: "ws_message list"
  table :: "price_row list"
  db_writes :: nat
      \<comment> \<open>writes to the price table attempted so far\<close>
  written :: "(string \<times> string) list"
      \<comment> \<open>the (symbol, date) keys of the writes that succeeded, oldest first\<close>
  pending :: "task list"

section \<open>Cache Store\<close>

record cache_entry =
  payloadJson :: string
  expiresAt :: int
  isStale :: bool
  source :: string

text \<open>
  Modelled from the spec: \<open>CacheService\<close> (services/cache) is not among the sources.
  \<open>get(key)\<close> gives the entry or absent, with \<open>isStale\<close> derived as
  \<open>now > expiresAt\<close>; \<open>set(key, payload, ttlSeconds, source)\<close> overwrites any prior
  entry of the key.
\<close>

definition getCacheConfig :: "world \<Rightarrow> string \<Rightarrow> cache_entry option" where
  "getCacheConfig w key =
     (case cache w key of
        None \<Rightarrow> None
      | Some (p, ex, src) \<Rightarrow>
          Some \<lparr>payloadJson = p, expiresAt = ex, isStale = (clock w > ex), source = src\<rparr>)"

definition setCacheConfig :: "string \<Rightarrow> string \<Rightarrow> int \<Rightarrow> string \<Rightarrow> world \<Rightarrow> world" where
  "setCacheConfig key payload ttlSeconds src w =
     w\<lparr>cache := (cache w)(key \<mapsto> (payload, clock w + ttlSeconds * 1000, src))\<rparr>"

text \<open>\<open>if (cached && !cached.isStale) return JSON.parse(cached.payloadJson)\<close>.\<close>

definition fresh :: "cache_entry option \<Rightarrow> cache_entry option" where
  "fresh cached = (case cached of None \<Rightarrow> None | Some c \<Rightarrow> if isStale c then None else Some c)"

definition parse_payload :: "env \<Rightarrow> cache_entry \<Rightarrow> error + jsval" where
  "parse_payload e c =
     (case JSON_parse e (payloadJson c) of None \<Rightarrow> Inl SyntaxError | Some v \<Rightarrow> Inr v)"

text \<open>\<open>await fetch(url)\<close>: the call is logged whether or not it succeeds.\<close>

definition do_fetch :: "env \<Rightarrow> string \<Rightarrow> world \<Rightarrow> response option \<times> world" where
  "do_fetch e url w = (fetch e (length (calls w)) url, w\<lparr>calls := calls w @ [url]\<rparr>)"

section \<open>Sequencing of fallible steps\<close>

definition and_then :: "error + 'a \<Rightarrow> ('a \<Rightarrow> error + 'b) \<Rightarrow> error + 'b" where
  "and_then r f = (case r of Inl err \<Rightarrow> Inl err | Inr v \<Rightarrow> f v)"

text \<open>\<open>xs.map(f)\<close> where \<open>f\<close> may throw: the first exception ends the map.\<close>

primrec map_err :: "('a \<Rightarrow> error + 'b) \<Rightarrow> 'a list \<Rightarrow> error + 'b list" where
  "map_err f [] = Inr []"
| "map_err f (x # xs) =
     (case f x of
        Inl err \<Rightarrow> Inl err
      | Inr y \<Rightarrow> (case map_err f xs of Inl err \<Rightarrow> Inl err | Inr ys \<Rightarrow> Inr (y # ys)))"

section \<open>AlphaVantage adapter (services/providers/alphavantage.ts)\<close>

text \<open>The body of \<open>getQuote\<close>'s \<open>try\<close> from the parsed response on.\<close>

definition av_quote_payload :: "env \<Rightarrow> string \<Rightarrow> jsval \<Rightarrow> error + jsval" where
  "av_quote_payload e symbol data =
     and_then (get_prop data ''Note'') (\<lambda>note.
     and_then (get_prop data ''Information'') (\<lambda>info.
       if truthy (js_or note info) then Inl (Error ''API limit reached'')
       else
         and_then (get_prop data ''Global Quote'') (\<lambda>quote.
           if \<not> truthy quote then Inl (Error ''No quote data'')
           else
             and_then (get_prop quote ''05. price'') (\<lambda>price.
               if \<not> truthy price then Inl (Error ''No quote data'')
               else
                 and_then (get_prop quote ''09. change'') (\<lambda>change.
                 and_then (get_prop quote ''10. change percent'') (\<lambda>pct.
                 and_then (get_prop quote ''07. latest trading day'') (\<lambda>day.
                   case pct of
                     JStr p \<Rightarrow>
                       Inr (JObj
                         [(''symbol'', JStr symbol),
                          (''assetType'', JStr ''STOCK''),
                          (''price'', JNum (parseFloat e price)),
                          (''changeAbs'', JNum (parseFloat e change)),
                          (''changePct'', JNum (parseFloat e (JStr (replace_percent p)))),
                          (''ts'', JNum (date_ms e day)),
                          (''source'', JStr ''ALPHAVANTAGE''),
                          (''isStale'', JBool False)])
                   | _ \<Rightarrow> Inl TypeError)))))))"

definition av_quote_url :: "env \<Rightarrow> string \<Rightarrow> string" where
  "av_quote_url e symbol =
     ALPHAVANTAGE_BASE_URL e @ ''?function=GLOBAL_QUOTE&symbol='' @ symbol
       @ ''&apikey='' @ ALPHAVANTAGE_API_KEY e"

definition av_quote_key :: "string \<Rightarrow> string" where
  "av_quote_key symbol = ''quote:av:'' @ symbol"

definition AlphaVantageProvider_getQuote ::
    "env \<Rightarrow> string \<Rightarrow> world \<Rightarrow> (error + jsval) \<times> world" where
  "AlphaVantageProvider_getQuote e symbol w =
     (let cacheKey = av_quote_key symbol in
      case fresh (getCacheConfig w cacheKey) of
        Some c \<Rightarrow> (parse_payload e c, w)
      | None \<Rightarrow>
          (case do_fetch e (av_quote_url e symbol) w of
             (None, w1) \<Rightarrow> (Inl FetchFailed, w1)
           | (Some res, w1) \<Rightarrow>
               if \<not> ok res then (Inl (Error (''AV Error '' @ dec (status res))), w1)
               else
                 (case json res of
                    None \<Rightarrow> (Inl SyntaxError, w1)
                  | Some data \<Rightarrow>
                      (case av_quote_payload e symbol data of
                         Inl err \<Rightarrow> (Inl err, w1)
                       | Inr payload \<Rightarrow>
                           (Inr payload,
                            setCacheConfig cacheKey (JSON_stringify e payload) 900
                              ''ALPHAVANTAGE'' w1)))))"

text \<open>\<open>ts[d][k]\<close> for one date \<open>d\<close> of the series.\<close>

definition av_field :: "(string \<times> jsval) list \<Rightarrow> string \<Rightarrow> string \<Rightarrow> error + jsval" where
  "av_field tkv d k = get_prop (case map_of tkv d of Some v \<Rightarrow> v | None \<Rightarrow> JUndefined) k"

definition av_candles_payload :: "env \<Rightarrow> jsval \<Rightarrow> error + jsval" where
  "av_candles_payload e data =
     and_then (get_prop data ''Note'') (\<lambda>note.
     and_then (get_prop data ''Information'') (\<lambda>info.
       if truthy (js_or note info) then Inl (Error ''API limit reached'')
       else
         and_then (entries data) (\<lambda>kvs.
           case find (\<lambda>kv. str_includes (fst kv) ''Time Series'') kvs of
             None \<Rightarrow> Inl (Error ''Invalid AV format'')
           | Some (timeSeriesKey, ts) \<Rightarrow>
               and_then (entries ts) (\<lambda>tkv.
                 let dates = sort_by_time e (map fst tkv) in
                 and_then (map_err (\<lambda>d. and_then (av_field tkv d ''1. open'')
                             (\<lambda>x. Inr (JNum (parseFloat e x)))) dates) (\<lambda>os.
                 and_then (map_err (\<lambda>d. and_then (av_field tkv d ''2. high'')
                             (\<lambda>x. Inr (JNum (parseFloat e x)))) dates) (\<lambda>hs.
                 and_then (map_err (\<lambda>d. and_then (av_field tkv d ''3. low'')
                             (\<lambda>x. Inr (JNum (parseFloat e x)))) dates) (\<lambda>ls.
                 and_then (map_err (\<lambda>d. and_then (av_field tkv d ''4. close'') (\<lambda>x.
                             and_then (av_field tkv d ''4. adjusted close'') (\<lambda>y.
                               Inr (JNum (parseFloat e (js_or x y)))))) dates) (\<lambda>cs.
                 and_then (map_err (\<lambda>d. and_then (av_field tkv d ''6. volume'') (\<lambda>x.
                             and_then (av_field tkv d ''5. volume'') (\<lambda>y.
                               Inr (JNum (parseFloat e (js_or x y)))))) dates) (\<lambda>vs.
                   Inr (JObj
                     [(''s'', JStr ''ok''),
                      (''t'', JArr (map (\<lambda>d. JNum (floor_div_1000 (date_ms e (JStr d)))) dates)),
                      (''o'', JArr os),
                      (''h'', JArr hs),
                      (''l'', JArr ls),
                      (''c'', JArr cs),
                      (''v'', JArr vs),
                      (''source'', JStr ''ALPHAVANTAGE'')]))))))))))"

definition av_candles_url :: "env \<Rightarrow> string \<Rightarrow> bool \<Rightarrow> string" where
  "av_candles_url e symbol isIntraday =
     ALPHAVANTAGE_BASE_URL e @ ''?function=''
       @ (if isIntraday then ''TIME_SERIES_INTRADAY'' else ''TIME_SERIES_DAILY_ADJUSTED'')
       @ ''&symbol='' @ symbol @ ''&outputsize=full''
       @ (if isIntraday then ''&interval=60min'' else [])
       @ ''&apikey='' @ ALPHAVANTAGE_API_KEY e"

definition av_candles_key :: "string \<Rightarrow> bool \<Rightarrow> string" where
  "av_candles_key symbol isIntraday =
     ''candle:av:'' @ symbol @ '':'' @ (if isIntraday then ''intraday'' else ''daily'')"

definition AlphaVantageProvider_getCandles ::
    "env \<Rightarrow> string \<Rightarrow> bool \<Rightarrow> world \<Rightarrow> (error + jsval) \<times> world" where
  "AlphaVantageProvider_getCandles e symbol isIntraday w =
     (let cacheKey = av_candles_key symbol isIntraday in
      case fresh (getCacheConfig w cacheKey) of
        Some c \<Rightarrow> (parse_payload e c, w)
      | None \<Rightarrow>
          (case do_fetch e (av_candles_url e symbol isIntraday) w of
             (None, w1) \<Rightarrow> (Inl FetchFailed, w1)
           | (Some res, w1) \<Rightarrow>
               (case json res of
                  None \<Rightarrow> (Inl SyntaxError, w1)
                | Some data \<Rightarrow>
                    (case av_candles_payload e data of
                       Inl err \<Rightarrow> (Inl err, w1)
                     | Inr payload \<Rightarrow>
                         (Inr payload,
                          setCacheConfig cacheKey (JSON_stringify e payload)
                            (if isIntraday then 1800 else 86400) ''ALPHAVANTAGE'' w1)))))"





section \<open>Binance adapter and live feed (services/providers/binance.ts)\<close>

definition initWebSocket :: "world \<Rightarrow> world" where
  "initWebSocket w = (case ws w of Some st \<Rightarrow> w | None \<Rightarrow> w\<lparr>ws := Some CONNECTING\<rparr>)"

definition trackSymbol :: "string \<Rightarrow> world \<Rightarrow> world" where
  "trackSymbol symbol w =
     (if symbol \<in> set (trackedSymbols w) then w
      else
        (let w1 = w\<lparr>trackedSymbols := trackedSymbols w @ [symbol]\<rparr> in
         case ws w1 of
           Some st \<Rightarrow>
             if st = OPEN
             then w1\<lparr>ws_sent := ws_sent w1 @
                    [\<lparr>ws_method = ''SUBSCRIBE'',
                      ws_params = [toLowerCase symbol @ ''@ticker''],
                      msg_id = clock w1\<rparr>]\<rparr>
             else w1
         | None \<Rightarrow> initWebSocket w1))"

text \<open>The quote the \<open>message\<close> handler builds from a parsed ticker frame.\<close>

definition binance_ws_payload :: "env \<Rightarrow> jsval \<Rightarrow> error + jsval" where
  "binance_ws_payload e parsed =
     and_then (get_prop parsed ''s'') (\<lambda>symbol.
     and_then (get_prop parsed ''c'') (\<lambda>c.
     and_then (get_prop parsed ''p'') (\<lambda>p.
     and_then (get_prop parsed ''P'') (\<lambda>P.
     and_then (get_prop parsed ''E'') (\<lambda>E.
       Inr (JObj
         [(''symbol'', symbol),
          (''assetType'', JStr ''CRYPTO''),
          (''price'', JNum (parseFloat e c)),
          (''changeAbs'', JNum (parseFloat e p)),
          (''changePct'', JNum (parseFloat e P)),
          (''ts'', E),
          (''source'', JStr ''BINANCE_WS''),
          (''isStale'', JBool False)]))))))"

text \<open>
  The \<open>message\<close> handler. Whatever its \<open>try\<close> throws is ignored; the hot cache is
  written before the persisted one, at most once per 5 seconds and symbol.
\<close>

definition on_message :: "env \<Rightarrow> string \<Rightarrow> world \<Rightarrow> world" where
  "on_message e data w =
     (case JSON_parse e data of
        None \<Rightarrow> w
      | Some parsed \<Rightarrow>
          (case get_prop parsed ''e'' of
             Inl err \<Rightarrow> w
           | Inr ev \<Rightarrow>
               if ev \<noteq> JStr ''24hrTicker'' then w
               else
                 (case binance_ws_payload e parsed of
                    Inl err \<Rightarrow> w
                  | Inr payload \<Rightarrow>
                      (let symbol = (case get_prop parsed ''s'' of
                                       Inr s \<Rightarrow> ToString e s | Inl err \<Rightarrow> []);
                           w1 = w\<lparr>memoryCache :=
                                  (memoryCache w)(''quote:'' @ symbol \<mapsto> payload)\<rparr>;
                           lastDbWrite =
                             js_or (case memoryCache w1 (''dbwrite:'' @ symbol) of
                                      Some v \<Rightarrow> v | None \<Rightarrow> JUndefined)
                                   (JNum (Fin 0))
                       in case ToNumber e lastDbWrite of
                            NaN \<Rightarrow> w1
                          | Fin l \<Rightarrow>
                              if real_of_int (clock w1) - l > 5000
                              then
                                (let w2 = setCacheConfig (''quote:'' @ symbol)
                                            (JSON_stringify e payload) 60 ''BINANCE_WS'' w1
                                 in w2\<lparr>memoryCache :=
                                      (memoryCache w2)(''dbwrite:'' @ symbol \<mapsto>
                                         JNum (Fin (real_of_int (clock w2))))\<rparr>)
                              else w1))))"

definition binance_quote_key :: "string \<Rightarrow> string" where
  "binance_quote_key symbol = ''quote:'' @ symbol"

definition binance_quote_url :: "env \<Rightarrow> string \<Rightarrow> string" where
  "binance_quote_url e symbol =
     BINANCE_REST_BASE_URL e @ ''/api/v3/ticker/24hr?symbol='' @ symbol"

definition binance_rest_payload :: "env \<Rightarrow> jsval \<Rightarrow> error + jsval" where
  "binance_rest_payload e data =
     and_then (get_prop data ''symbol'') (\<lambda>symbol.
     and_then (get_prop data ''lastPrice'') (\<lambda>lastPrice.
     and_then (get_prop data ''priceChange'') (\<lambda>priceChange.
     and_then (get_prop data ''priceChangePercent'') (\<lambda>priceChangePercent.
     and_then (get_prop data ''closeTime'') (\<lambda>closeTime.
       Inr (JObj
         [(''symbol'', symbol),
          (''assetType'', JStr ''CRYPTO''),
          (''price'', JNum (parseFloat e lastPrice)),
          (''changeAbs'', JNum (parseFloat e priceChange)),
          (''changePct'', JNum (parseFloat e priceChangePercent)),
          (''ts'', closeTime),
          (''source'', JStr ''BINANCE_REST''),
          (''isStale'', JBool False)]))))))"

text \<open>The \<open>try\<close> of \<open>getQuote\<close> up to the cache write: one REST call and its parsing.\<close>

definition binance_rest_quote :: "env \<Rightarrow> string \<Rightarrow> world \<Rightarrow> (error + jsval) \<times> world" where
  "binance_rest_quote e symbol w =
     (case do_fetch e (binance_quote_url e symbol) w of
        (None, w1) \<Rightarrow> (Inl FetchFailed, w1)
      | (Some res, w1) \<Rightarrow>
          if \<not> ok res then (Inl (Error (''Binance REST HTTP '' @ dec (status res))), w1)
          else
            (case json res of
               None \<Rightarrow> (Inl SyntaxError, w1)
             | Some data \<Rightarrow> (binance_rest_payload e data, w1)))"

text \<open>
  The \<open>catch\<close> of \<open>getQuote\<close>: \<open>stale.isStale = true\<close> on the parsed payload. On
  \<open>null\<close> the assignment throws; on a primitive it throws in strict mode and is ignored
  otherwise; an array takes the property, which its JSON form does not show.
\<close>

definition mark_stale :: "env \<Rightarrow> jsval \<Rightarrow> error + jsval" where
  "mark_stale e stale =
     (case stale of
        JObj kvs \<Rightarrow> Inr (JObj (set_prop kvs ''isStale'' (JBool True)))
      | JArr xs \<Rightarrow> Inr (JArr xs)
      | JNull \<Rightarrow> Inl TypeError
      | JUndefined \<Rightarrow> Inl TypeError
      | _ \<Rightarrow> if strict_mode e then Inl TypeError else Inr stale)"

definition BinanceProvider_getQuote ::
    "env \<Rightarrow> string \<Rightarrow> world \<Rightarrow> (error + jsval) \<times> world" where
  "BinanceProvider_getQuote e symbol w0 =
     (let w = trackSymbol symbol w0;
          mem = (case memoryCache w (binance_quote_key symbol) of
                   Some v \<Rightarrow> v | None \<Rightarrow> JUndefined)
      in if truthy mem then (Inr mem, w)
         else
           (let cached = getCacheConfig w (binance_quote_key symbol) in
            case fresh cached of
              Some c \<Rightarrow> (parse_payload e c, w)
            | None \<Rightarrow>
                (case binance_rest_quote e symbol w of
                   (Inr payload, w1) \<Rightarrow>
                     (Inr payload,
                      setCacheConfig (binance_quote_key symbol) (JSON_stringify e payload) 60
                        ''BINANCE_REST'' w1)
                 | (Inl err, w1) \<Rightarrow>
                     (case cached of
                        Some c \<Rightarrow> (and_then (parse_payload e c) (mark_stale e), w1)
                      | None \<Rightarrow> (Inl (Error ''No crypto quote available''), w1)))))"

definition binance_klines_url :: "env \<Rightarrow> string \<Rightarrow> string \<Rightarrow> nat \<Rightarrow> string" where
  "binance_klines_url e symbol interval limit =
     BINANCE_REST_BASE_URL e @ ''/api/v3/klines?symbol='' @ symbol
       @ ''&interval='' @ interval @ ''&limit='' @ dec limit"

text \<open>\<open>data.map(k => f(k[i]))\<close>: a non-array has no \<open>map\<close> to call.\<close>

definition kline_column :: "jsval \<Rightarrow> nat \<Rightarrow> (jsval \<Rightarrow> number) \<Rightarrow> error + jsval" where
  "kline_column data i f =
     (case data of
        JArr ks \<Rightarrow>
          and_then (map_err (\<lambda>k. and_then (get_index k i) (\<lambda>x. Inr (JNum (f x)))) ks)
            (\<lambda>col. Inr (JArr col))
      | _ \<Rightarrow> Inl TypeError)"

definition binance_klines_payload :: "env \<Rightarrow> jsval \<Rightarrow> error + jsval" where
  "binance_klines_payload e data =
     and_then (kline_column data 0 (\<lambda>x. floor_div_1000 (ToNumber e x))) (\<lambda>ts.
     and_then (kline_column data 1 (parseFloat e)) (\<lambda>os.
     and_then (kline_column data 2 (parseFloat e)) (\<lambda>hs.
     and_then (kline_column data 3 (parseFloat e)) (\<lambda>ls.
     and_then (kline_column data 4 (parseFloat e)) (\<lambda>cs.
     and_then (kline_column data 5 (parseFloat e)) (\<lambda>vs.
       Inr (JObj
         [(''s'', JStr ''ok''),
          (''t'', ts),
          (''o'', os),
          (''h'', hs),
          (''l'', ls),
          (''c'', cs),
          (''v'', vs),
          (''source'', JStr ''BINANCE_REST'')])))))))"

definition error_candles :: jsval where
  "error_candles = JObj [(''s'', JStr ''error'')]"

text \<open>
  \<open>getCandles(symbol, interval, limit = 180)\<close>. An argument is \<open>None\<close> when the caller
  passes \<open>undefined\<close>: the default then replaces the limit, and the template literals
  print the interval as \<open>undefined\<close>.
\<close>

definition binance_interval :: "string option \<Rightarrow> string" where
  "binance_interval interval0 = (case interval0 of Some i \<Rightarrow> i | None \<Rightarrow> ''undefined'')"

definition binance_limit :: "nat option \<Rightarrow> nat" where
  "binance_limit limit0 = (case limit0 of Some l \<Rightarrow> l | None \<Rightarrow> 180)"

definition binance_candles_key :: "string \<Rightarrow> string \<Rightarrow> nat \<Rightarrow> string" where
  "binance_candles_key symbol interval limit =
     ''candle:binance:'' @ symbol @ '':'' @ interval @ '':'' @ dec limit"

text \<open>The \<open>try\<close> of \<open>getCandles\<close> up to the cache write: one REST call and its parsing.\<close>

definition binance_rest_klines ::
    "env \<Rightarrow> string \<Rightarrow> string \<Rightarrow> nat \<Rightarrow> world \<Rightarrow> (error + jsval) \<times> world" where
  "binance_rest_klines e symbol interval limit w =
     (case do_fetch e (binance_klines_url e symbol interval limit) w of
        (None, w1) \<Rightarrow> (Inl FetchFailed, w1)
      | (Some res, w1) \<Rightarrow>
          if \<not> ok res then (Inl (Error ''Failed to fetch Binance klines''), w1)
          else
            (case json res of
               None \<Rightarrow> (Inl SyntaxError, w1)
             | Some data \<Rightarrow> (binance_klines_payload e data, w1)))"

definition BinanceProvider_getCandles ::
    "env \<Rightarrow> string \<Rightarrow> string option \<Rightarrow> nat option \<Rightarrow> world \<Rightarrow> (error + jsval) \<times> world" where
  "BinanceProvider_getCandles e symbol interval0 limit0 w =
     (let interval = binance_interval interval0;
          limit = binance_limit limit0;
          cacheKey = binance_candles_key symbol interval limit
      in case fresh (getCacheConfig w cacheKey) of
           Some c \<Rightarrow> (parse_payload e c, w)
         | None \<Rightarrow>
             (case binance_rest_klines e symbol interval limit w of
                (Inr payload, w1) \<Rightarrow>
                  (Inr payload,
                   setCacheConfig cacheKey (JSON_stringify e payload) 300 ''BINANCE_REST'' w1)
              | (Inl err, w1) \<Rightarrow> (Inr error_candles, w1)))"

section \<open>Aggregation router (services/market-data.ts)\<close>

text \<open>The quote the router builds from the secondary provider's answer.\<close>

definition finnhub_quote :: "env \<Rightarrow> string \<Rightarrow> jsval \<Rightarrow> error + jsval" where
  "finnhub_quote e symbol fhQuote =
     (if \<not> truthy fhQuote then Inl (Error ''All providers failed for quote'')
      else
        and_then (get_prop fhQuote ''d'') (\<lambda>d.
          if d = JNull then Inl (Error ''All providers failed for quote'')
          else
            and_then (get_prop fhQuote ''c'') (\<lambda>c.
            and_then (get_prop fhQuote ''dp'') (\<lambda>dp.
            and_then (get_prop fhQuote ''t'') (\<lambda>t.
              Inr (JObj
                [(''symbol'', JStr symbol),
                 (''assetType'', JStr ''STOCK''),
                 (''price'', JNum (parseFloat e c)),
                 (''changeAbs'', JNum (parseFloat e d)),
                 (''changePct'', JNum (parseFloat e dp)),
                 (''ts'', t),
                 (''source'', JStr ''FINNHUB''),
                 (''isStale'', JBool False)]))))))"

definition MarketData_getQuote ::
    "env \<Rightarrow> string \<Rightarrow> asset_type \<Rightarrow> world \<Rightarrow> (error + jsval) \<times> world" where
  "MarketData_getQuote e symbol assetType w =
     (case assetType of
        CRYPTO \<Rightarrow> BinanceProvider_getQuote e symbol w
      | STOCK \<Rightarrow>
          (case AlphaVantageProvider_getQuote e symbol w of
             (Inr q, w1) \<Rightarrow> (Inr q, w1)
           | (Inl errAV, w1) \<Rightarrow>
               (and_then (finnhub_getQuote e symbol) (finnhub_quote e symbol), w1)))"

text \<open>
  The object literal \<open>map\<close> of \<open>getCandles\<close>, and \<open>map[rangeStr]\<close>. A property read on
  an object literal that finds no own property goes on to \<open>Object.prototype\<close>, whose
  properties are functions (and, for \<open>__proto__\<close>, the prototype object): truthy values
  with neither an \<open>interval\<close> nor a \<open>limit\<close> property.
\<close>

definition range_map :: "(string \<times> string \<times> nat) list" where
  "range_map =
     [(''1d'', ''15m'', 96),
      (''1w'', ''1h'', 168),
      (''1m'', ''4h'', 180),
      (''3m'', ''1d'', 90),
      (''6m'', ''1d'', 180),
      (''1y'', ''1d'', 365)]"

definition Object_prototype_keys :: "string list" where
  "Object_prototype_keys =
     [''constructor'', ''__defineGetter__'', ''__defineSetter__'', ''hasOwnProperty'',
      ''__lookupGetter__'', ''__lookupSetter__'', ''isPrototypeOf'',
      ''propertyIsEnumerable'', ''toString'', ''valueOf'', ''__proto__'',
      ''toLocaleString'']"

text \<open>
  \<open>const config = map[rangeStr] || map['6m']\<close>, as the pair
  \<open>(config.interval, config.limit)\<close>; \<open>None\<close> is \<open>undefined\<close>.
\<close>

definition crypto_config :: "string \<Rightarrow> string option \<times> nat option" where
  "crypto_config rangeStr =
     (case map_of range_map rangeStr of
        Some (interval, limit) \<Rightarrow> (Some interval, Some limit)
      | None \<Rightarrow>
          if rangeStr \<in> set Object_prototype_keys then (None, None)
          else
            (case map_of range_map ''6m'' of
               Some (interval, limit) \<Rightarrow> (Some interval, Some limit)
             | None \<Rightarrow> (None, None)))"

text \<open>The window of the secondary provider: \<open>(resolution, from, to)\<close>.\<close>

definition finnhub_window :: "string \<Rightarrow> int \<Rightarrow> string \<times> int \<times> int" where
  "finnhub_window rangeStr now =
     (let isIntraday = (rangeStr \<in> set [''1d'', ''1w'']);
          to = now div 1000
      in if rangeStr = ''1m'' then (''D'', to - 30 * 24 * 60 * 60, to)
         else if rangeStr = ''1y'' then (''D'', to - 365 * 24 * 60 * 60, to)
         else if isIntraday then (''60'', to - 7 * 24 * 60 * 60, to)
         else (''D'', to - 180 * 24 * 60 * 60, to))"

definition MarketData_getCandles ::
    "env \<Rightarrow> string \<Rightarrow> asset_type \<Rightarrow> string \<Rightarrow> world \<Rightarrow> (error + jsval) \<times> world" where
  "MarketData_getCandles e symbol assetType rangeStr w =
     (case assetType of
        CRYPTO \<Rightarrow>
          (case crypto_config rangeStr of
             (interval, limit) \<Rightarrow> BinanceProvider_getCandles e symbol interval limit w)
      | STOCK \<Rightarrow>
          (let isIntraday = (rangeStr \<in> set [''1d'', ''1w'']) in
           case AlphaVantageProvider_getCandles e symbol isIntraday w of
             (Inr candles, w1) \<Rightarrow> (Inr candles, w1)
           | (Inl errAV, w1) \<Rightarrow>
               (case finnhub_window rangeStr (clock w1) of
                  (resolution, from, to) \<Rightarrow>
                    (finnhub_getCandles e symbol resolution from to, w1))))"

section \<open>History store (services/price-history.ts)\<close>

text \<open>A property of a value already known to be truthy: the read cannot throw.\<close>

definition peek :: "jsval \<Rightarrow> string \<Rightarrow> jsval" where
  "peek v k = (case get_prop v k of Inl err \<Rightarrow> JUndefined | Inr x \<Rightarrow> x)"

text \<open>
  \<open>!candles || candles.s !== 'ok' || !candles.c || candles.c.length === 0\<close>, the guard
  of \<open>backfillSymbol\<close> and \<open>appendLatestCandle\<close>.
\<close>

definition no_data :: "jsval \<Rightarrow> bool" where
  "no_data candles =
     (\<not> truthy candles \<or> peek candles ''s'' \<noteq> JStr ''ok'' \<or> \<not> truthy (peek candles ''c'')
      \<or> peek (peek candles ''c'') ''length'' = JNum (Fin 0))"


text \<open>
  \<open>prisma.priceHistory.upsert\<close> on the unique key (symbol, date): the row of that key
  is updated, or the new row is created.
\<close>

definition row_key :: "price_row \<Rightarrow> string \<times> string" where
  "row_key r = (ph_symbol r, ph_date r)"

definition upsert ::
    "(price_row \<Rightarrow> price_row) \<Rightarrow> price_row \<Rightarrow> price_row list \<Rightarrow> price_row list" where
  "upsert update create tbl =
     (if row_key create \<in> set (map row_key tbl)
      then map (\<lambda>r. if row_key r = row_key create then update r else r) tbl
      else tbl @ [create])"

text \<open>The \<open>update\<close> clauses: \<open>backfillSymbol\<close> writes the asset type, \<open>appendLatestCandle\<close> does not.\<close>

definition update_backfill :: "price_row \<Rightarrow> price_row \<Rightarrow> price_row" where
  "update_backfill new r =
     r\<lparr>ph_open := ph_open new, ph_high := ph_high new, ph_low := ph_low new,
       ph_close := ph_close new, ph_volume := ph_volume new,
       ph_assetType := ph_assetType new\<rparr>"


text \<open>
  The arguments of the upsert, \<open>candles.o[i]\<close> to \<open>candles.v[i]\<close>: the columns are
  floats, so a value that is not a number is refused before anything is written.
\<close>

definition candle_values ::
    "jsval \<Rightarrow> nat \<Rightarrow> error + (number \<times> number \<times> number \<times> number \<times> number)" where
  "candle_values candles i =
     and_then (and_then (get_prop candles ''o'') (\<lambda>a. get_index a i)) (\<lambda>ov.
     and_then (and_then (get_prop candles ''h'') (\<lambda>a. get_index a i)) (\<lambda>hv.
     and_then (and_then (get_prop candles ''l'') (\<lambda>a. get_index a i)) (\<lambda>lv.
     and_then (and_then (get_prop candles ''c'') (\<lambda>a. get_index a i)) (\<lambda>cv.
     and_then (and_then (get_prop candles ''v'') (\<lambda>a. get_index a i)) (\<lambda>vv.
       case (ov, hv, lv, cv, vv) of
         (JNum ov', JNum hv', JNum lv', JNum cv', JNum vv') \<Rightarrow> Inr (ov', hv', lv', cv', vv')
       | _ \<Rightarrow> Inl (Error ''PrismaClientValidationError''))))))"

text \<open>
  One upsert inside its \<open>try\<close>: \<open>True\<close> when the row was written. The write counts
  as attempted once the database is reached.
\<close>

definition persist ::
    "env \<Rightarrow> (price_row \<Rightarrow> price_row \<Rightarrow> price_row) \<Rightarrow> string \<Rightarrow> asset_type \<Rightarrow> string
      \<Rightarrow> jsval \<Rightarrow> nat \<Rightarrow> world \<Rightarrow> bool \<times> world" where
  "persist e update symbol assetType date candles i w =
     (case candle_values candles i of
        Inl err \<Rightarrow> (False, w)
      | Inr (ov, hv, lv, cv, vv) \<Rightarrow>
          (let row = \<lparr>ph_symbol = symbol, ph_date = date, ph_assetType = assetType,
                      ph_open = ov, ph_high = hv, ph_low = lv, ph_close = cv,
                      ph_volume = vv\<rparr>;
               w1 = w\<lparr>db_writes := db_writes w + 1\<rparr>
           in if db_ok e (db_writes w) row
              then (True, w1\<lparr>table := upsert (update row) row (table w1),
                              written := written w1 @ [(symbol, date)]\<rparr>)
              else (False, w1)))"

text \<open>\<open>new Date(candles.t[i] * 1000).toISOString().split('T')[0]\<close>.\<close>

definition candle_date :: "env \<Rightarrow> jsval \<Rightarrow> nat \<Rightarrow> error + string" where
  "candle_date e candles i =
     and_then (get_prop candles ''t'') (\<lambda>t.
     and_then (get_index t i) (\<lambda>x.
       case iso_day e (times_1000 (ToNumber e x)) of
         None \<Rightarrow> Inl RangeError
       | Some d \<Rightarrow> Inr d))"

text \<open>
  The \<open>for\<close> loop of \<open>backfillSymbol\<close> over the indices left to visit. The date is
  computed outside the \<open>try\<close>, the upsert inside it.
\<close>

fun backfill_loop ::
    "env \<Rightarrow> string \<Rightarrow> asset_type \<Rightarrow> jsval \<Rightarrow> nat list \<Rightarrow> nat \<Rightarrow> world
      \<Rightarrow> (error + nat) \<times> world" where
  "backfill_loop e symbol assetType candles [] inserted w = (Inr inserted, w)"
| "backfill_loop e symbol assetType candles (i # rest) inserted w =
     (case candle_date e candles i of
        Inl err \<Rightarrow> (Inl err, w)
      | Inr date \<Rightarrow>
          (case persist e update_backfill symbol assetType date candles i w of
             (True, w1) \<Rightarrow> backfill_loop e symbol assetType candles rest (inserted + 1) w1
           | (False, w1) \<Rightarrow> backfill_loop e symbol assetType candles rest inserted w1))"

text \<open>The number of indices \<open>i = 0, 1, ...\<close> with \<open>i < len\<close>.\<close>

definition loop_bound :: "env \<Rightarrow> jsval \<Rightarrow> nat" where
  "loop_bound e len = (case ToNumber e len of NaN \<Rightarrow> 0 | Fin r \<Rightarrow> nat \<lceil>r\<rceil>)"

definition backfillSymbol ::
    "env \<Rightarrow> string \<Rightarrow> asset_type \<Rightarrow> world \<Rightarrow> (error + nat) \<times> world" where
  "backfillSymbol e symbol assetType w =
     (case MarketData_getCandles e symbol assetType ''2y'' w of
        (Inl err, w1) \<Rightarrow> (Inl err, w1)
      | (Inr candles, w1) \<Rightarrow>
          if no_data candles then (Inr 0, w1)
          else
            (case and_then (get_prop candles ''t'') (\<lambda>t. get_prop t ''length'') of
               Inl err \<Rightarrow> (Inl err, w1)
             | Inr len \<Rightarrow>
                 backfill_loop e symbol assetType candles [0..<loop_bound e len] 0 w1))"







text \<open>A pending backfill, run later; its rejection is swallowed by the empty \<open>catch\<close>.\<close>

fun run_task :: "env \<Rightarrow> task \<Rightarrow> world \<Rightarrow> world" where
  "run_task e (Backfill symbol assetType) w = snd (backfillSymbol e symbol assetType w)"

section \<open>Job coordination (POST /api/admin/screener/run)\<close>

datatype job_status = IDLE | RUNNING | DONE | ERROR

datatype reply = Conflict | Queued

text \<open>
  The handler has one suspension point, \<open>await prisma.jobState.findUnique\<close>, so a request
  runs in two segments that other requests may interleave with: the read, and the
  continuation that tests the status read and either replies 409 or hands the job to
  \<open>setImmediate\<close> and replies that it is queued. The handler itself writes nothing.
\<close>

record coordinator =
  jobState :: "string \<rightharpoonup> job_status"
  seen :: "nat \<rightharpoonup> job_status option"
      \<comment> \<open>what each request's \<open>findUnique\<close> returned\<close>
  replies :: "nat \<rightharpoonup> reply"
  queued :: "string list"
      \<comment> \<open>the jobs handed to \<open>setImmediate\<close>, oldest first\<close>
  started :: "string list"
      \<comment> \<open>the jobs whose body has begun\<close>

datatype event = FindUnique nat | Resume nat | RunJob

text \<open>
  Modelled from the spec: \<open>ScreenerService.runScreenerJob\<close> is not among the sources;
  on starting, a job persists RUNNING for its id before its body executes.
\<close>

definition runScreenerJob :: "string \<Rightarrow> coordinator \<Rightarrow> coordinator" where
  "runScreenerJob u c = c\<lparr>jobState := (jobState c)(u \<mapsto> RUNNING), started := started c @ [u]\<rparr>"

text \<open>One event of the loop; \<open>universe r\<close> is the universe request \<open>r\<close> names.\<close>

fun step :: "(nat \<Rightarrow> string) \<Rightarrow> event \<Rightarrow> coordinator \<Rightarrow> coordinator" where
  "step universe (FindUnique r) c = c\<lparr>seen := (seen c)(r \<mapsto> jobState c (universe r))\<rparr>"
| "step universe (Resume r) c =
     (case seen c r of
        None \<Rightarrow> c
      | Some js \<Rightarrow>
          if js = Some RUNNING then c\<lparr>replies := (replies c)(r \<mapsto> Conflict)\<rparr>
          else c\<lparr>replies := (replies c)(r \<mapsto> Queued), queued := queued c @ [universe r]\<rparr>)"
| "step universe RunJob c =
     (case queued c of
        [] \<Rightarrow> c
      | u # rest \<Rightarrow> runScreenerJob u (c\<lparr>queued := rest\<rparr>))"

fun run :: "(nat \<Rightarrow> string) \<Rightarrow> event list \<Rightarrow> coordinator \<Rightarrow> coordinator" where
  "run universe [] c = c"
| "run universe (ev # evs) c = run universe evs (step universe ev c)"

definition idle :: coordinator where
  "idle = \<lparr>jobState = Map.empty, seen = Map.empty, replies = Map.empty,
           queued = [], started = []\<rparr>"

section \<open>The adapter operations that read the cache first\<close>




section \<open>The shape of a quote\<close>

definition is_num :: "jsval option \<Rightarrow> bool" where
  "is_num v = (case v of Some (JNum n) \<Rightarrow> True | _ \<Rightarrow> False)"

definition is_str :: "jsval option \<Rightarrow> bool" where
  "is_str v = (case v of Some (JStr s) \<Rightarrow> True | _ \<Rightarrow> False)"

definition is_bool :: "jsval option \<Rightarrow> bool" where
  "is_bool v = (case v of Some (JBool b) \<Rightarrow> True | _ \<Rightarrow> False)"

definition is_integer :: "jsval option \<Rightarrow> bool" where
  "is_integer v = (case v of Some (JNum (Fin r)) \<Rightarrow> r = of_int \<lfloor>r\<rfloor> | _ \<Rightarrow> False)"

text \<open>
  The canonical Quote in the words of the specification: exactly the fields symbol,
  assetType, price, changeAbs, changePct, timestamp, source and isStale, with their types.
\<close>

definition quote_shape_spec :: "jsval \<Rightarrow> bool" where
  "quote_shape_spec q =
     (case q of
        JObj kvs \<Rightarrow>
          distinct (map fst kvs)
          \<and> set (map fst kvs) = set [''symbol'', ''assetType'', ''price'', ''changeAbs'',
                                    ''changePct'', ''timestamp'', ''source'', ''isStale'']
          \<and> is_str (map_of kvs ''symbol'')
          \<and> map_of kvs ''assetType'' \<in> set [Some (JStr ''STOCK''), Some (JStr ''CRYPTO'')]
          \<and> is_num (map_of kvs ''price'')
          \<and> is_num (map_of kvs ''changeAbs'')
          \<and> is_num (map_of kvs ''changePct'')
          \<and> is_integer (map_of kvs ''timestamp'')
          \<and> is_str (map_of kvs ''source'')
          \<and> is_bool (map_of kvs ''isStale'')
      | _ \<Rightarrow> False)"

text \<open>
  The fields of the object literals the quote paths write: the time field is \<open>ts\<close>, and
  neither it nor the symbol is converted or checked.
\<close>

definition quote_shape_code :: "jsval \<Rightarrow> bool" where
  "quote_shape_code q =
     (case q of
        JObj kvs \<Rightarrow>
          map fst kvs = [''symbol'', ''assetType'', ''price'', ''changeAbs'',
                         ''changePct'', ''ts'', ''source'', ''isStale'']
          \<and> map_of kvs ''assetType'' \<in> set [Some (JStr ''STOCK''), Some (JStr ''CRYPTO'')]
          \<and> is_num (map_of kvs ''price'')
          \<and> is_num (map_of kvs ''changeAbs'')
          \<and> is_num (map_of kvs ''changePct'')
          \<and> is_str (map_of kvs ''source'')
          \<and> map_of kvs ''isStale'' = Some (JBool False)
      | _ \<Rightarrow> False)"

text \<open>Every quote the hot cache holds is truthy.\<close>

definition hot_quotes_truthy :: "world \<Rightarrow> bool" where
  "hot_quotes_truthy w =
     (\<forall>symbol q. memoryCache w (''quote:'' @ symbol) = Some q \<longrightarrow> truthy q)"

section \<open>Parts of the state\<close>



section \<open>Concrete runtimes and states\<close>

text \<open>A parser that knows three documents, and a runtime whose network is down.\<close>

definition parse3 :: "string \<Rightarrow> jsval option" where
  "parse3 s =
     (if s = ''null'' then Some JNull
      else if s = ''{}'' then Some (JObj [])
      else if s = ''[]'' then Some (JArr [])
      else None)"

definition offline :: env where
  "offline =
     \<lparr>JSON_parse = parse3,
      JSON_stringify = (\<lambda>v. ''{}''),
      parseFloat = (\<lambda>v. case v of JNum n \<Rightarrow> n | _ \<Rightarrow> NaN),
      str_to_number = (\<lambda>v. NaN),
      str_of = (\<lambda>v. ''x''),
      date_ms = (\<lambda>v. NaN),
      iso_day = (\<lambda>n. case n of NaN \<Rightarrow> None | Fin r \<Rightarrow> Some ''2024-01-02''),
      cutoff_day = (\<lambda>now days. Some ''2024-01-01''),
      sort_by_time = (\<lambda>ds. ds),
      fetch = (\<lambda>n url. None),
      strict_mode = True,
      BINANCE_REST_BASE_URL = ''https://api.binance.com'',
      ALPHAVANTAGE_BASE_URL = ''https://www.alphavantage.co/query'',
      ALPHAVANTAGE_API_KEY = ''demo'',
      finnhub_getQuote = (\<lambda>symbol. Inl (Error ''Finnhub HTTP 500'')),
      finnhub_getCandles = (\<lambda>symbol resolution from to. Inl (Error ''Finnhub HTTP 500'')),
      db_ok = (\<lambda>n row. True)\<rparr>"

definition empty_world :: world where
  "empty_world =
     \<lparr>cache = Map.empty, clock = 1000, calls = [], memoryCache = Map.empty,
      trackedSymbols = [], ws = None, ws_sent = [], table = [], db_writes = 0,
      written = [], pending = []\<rparr>"

text \<open>A cache holding one entry under a key, valid until the given time.\<close>

definition cached_world :: "string \<Rightarrow> string \<Rightarrow> int \<Rightarrow> world" where
  "cached_world key payload expires =
     empty_world\<lparr>cache := [key \<mapsto> (payload, expires, ''TEST'')]\<rparr>"

text \<open>Runtimes whose secondary provider answers: fully, with no data, without a time.\<close>

definition finnhub_up :: env where
  "finnhub_up = offline\<lparr>finnhub_getQuote := (\<lambda>symbol. Inr (JObj
      [(''c'', JNum (Fin 190)), (''d'', JNum (Fin 2)), (''dp'', JNum (Fin 1)),
       (''t'', JNum (Fin 1700000000))]))\<rparr>"


definition finnhub_no_time :: env where
  "finnhub_no_time = offline\<lparr>finnhub_getQuote := (\<lambda>symbol. Inr (JObj
      [(''c'', JNum (Fin 190)), (''d'', JNum (Fin 2)), (''dp'', JNum (Fin 1))]))\<rparr>"

text \<open>A state whose hot cache holds one quote.\<close>

definition hot_world :: "string \<Rightarrow> jsval \<Rightarrow> world" where
  "hot_world symbol q = empty_world\<lparr>memoryCache := [binance_quote_key symbol \<mapsto> q]\<rparr>"









section \<open>Properties\<close>

subsection \<open>Range tokens of the crypto candle path\<close>

lemma range_map_6m: "map_of range_map ''6m'' = Some (''1d'', 180)"
  by (simp add: range_map_def)

lemma crypto_config_table:
  "crypto_config ''1d'' = (Some ''15m'', Some 96)"
  "crypto_config ''1w'' = (Some ''1h'', Some 168)"
  "crypto_config ''1m'' = (Some ''4h'', Some 180)"
  "crypto_config ''3m'' = (Some ''1d'', Some 90)"
  "crypto_config ''6m'' = (Some ''1d'', Some 180)"
  "crypto_config ''1y'' = (Some ''1d'', Some 365)"
  by (simp_all add: crypto_config_def range_map_def)

lemma crypto_config_default:
  assumes "rangeStr \<notin> set (map fst range_map)" and "rangeStr \<notin> set Object_prototype_keys"
  shows "crypto_config rangeStr = crypto_config ''6m''"
proof -
  from assms(1) have "map_of range_map rangeStr = None"
    by (simp add: map_of_eq_None_iff)
  with assms(2) show ?thesis
    by (simp add: crypto_config_def range_map_6m)
qed

text \<open>
  C4. The six tokens of the table map as listed, and a token that is neither in the table
  nor the name of a property of \<open>Object.prototype\<close> takes the \<open>6m\<close> pair (the two
  lemmas above). The token \<open>constructor\<close> is not in the table, yet \<open>map[rangeStr]\<close>
  finds the inherited constructor function, which is truthy, so the \<open>6m\<close> default is
  not taken: the adapter is called with an undefined interval and limit, and requests
  the interval \<open>undefined\<close> where the \<open>6m\<close> mapping requests \<open>1d\<close>.
\<close>

theorem getCandles_constructor_token:
  "MarketData_getCandles e symbol CRYPTO ''constructor'' w
     = BinanceProvider_getCandles e symbol None None w
   \<and> MarketData_getCandles e symbol CRYPTO ''6m'' w
     = BinanceProvider_getCandles e symbol (Some ''1d'') (Some 180) w
   \<and> binance_klines_url e symbol (binance_interval None) (binance_limit None)
     \<noteq> binance_klines_url e symbol (binance_interval (Some ''1d'')) (binance_limit (Some 180))
   \<and> binance_candles_key symbol (binance_interval None) (binance_limit None)
     \<noteq> binance_candles_key symbol (binance_interval (Some ''1d'')) (binance_limit (Some 180))"
proof -
  have c: "crypto_config ''constructor'' = (None, None)"
    by (simp add: crypto_config_def range_map_def Object_prototype_keys_def)
  have s: "crypto_config ''6m'' = (Some ''1d'', Some 180)"
    by (simp add: crypto_config_def range_map_def)
  show ?thesis
    by (simp add: MarketData_getCandles_def c s binance_klines_url_def
        binance_candles_key_def binance_interval_def binance_limit_def)
qed

subsection \<open>Cache hits\<close>

lemma isStale_derived:
  "getCacheConfig w key = Some c \<Longrightarrow> isStale c = (clock w > expiresAt c)"
  by (auto simp add: getCacheConfig_def split: option.splits)




subsection \<open>Failures of the crypto candle adapter\<close>

text \<open>
  C9, as stated, fails: the cache read and the \<open>JSON.parse\<close> of a fresh cached payload
  precede the \<open>try\<close>, so a fresh entry whose payload is not JSON makes \<open>getCandles\<close>
  throw.
\<close>

theorem getCandles_throws_on_malformed_cache:
  "fresh (getCacheConfig (cached_world (binance_candles_key ''BTCUSDT'' ''1d'' 180) ''{'' 2000)
        (binance_candles_key ''BTCUSDT'' ''1d'' 180))
     = Some \<lparr>payloadJson = ''{'', expiresAt = 2000, isStale = False, source = ''TEST''\<rparr>
   \<and> fst (BinanceProvider_getCandles offline ''BTCUSDT'' (Some ''1d'') (Some 180)
        (cached_world (binance_candles_key ''BTCUSDT'' ''1d'' 180) ''{'' 2000))
     = Inl SyntaxError"
  by (simp add: BinanceProvider_getCandles_def binance_interval_def binance_limit_def
      fresh_def getCacheConfig_def cached_world_def empty_world_def parse_payload_def
      offline_def parse3_def)

text \<open>
  C9, amended. Unless the cache holds a fresh entry whose payload does not parse,
  \<open>getCandles\<close> always returns a value; and when there is no fresh entry, every failure
  of the REST call (the fetch, the HTTP status, the parsing of the body, the
  normalisation) gives \<open>{s: 'error'}\<close>, and a success gives the normalised payload.
\<close>

theorem getCandles_never_throws_after_cache_read:
  assumes "\<forall>c. fresh (getCacheConfig w (binance_candles_key symbol (binance_interval interval)
               (binance_limit limit))) = Some c \<longrightarrow> JSON_parse e (payloadJson c) \<noteq> None"
  shows "(\<exists>v. fst (BinanceProvider_getCandles e symbol interval limit w) = Inr v)
     \<and> (fresh (getCacheConfig w (binance_candles_key symbol (binance_interval interval)
               (binance_limit limit))) = None
         \<longrightarrow> fst (BinanceProvider_getCandles e symbol interval limit w)
            = (case fst (binance_rest_klines e symbol (binance_interval interval)
                          (binance_limit limit) w) of
                 Inl err \<Rightarrow> Inr error_candles
               | Inr payload \<Rightarrow> Inr payload))"
proof (cases "fresh (getCacheConfig w (binance_candles_key symbol (binance_interval interval)
               (binance_limit limit)))")
  case None
  obtain r w1 where k: "binance_rest_klines e symbol (binance_interval interval)
                          (binance_limit limit) w = (r, w1)"
    by (cases "binance_rest_klines e symbol (binance_interval interval) (binance_limit limit) w")
  with None show ?thesis
    by (cases r) (simp_all add: BinanceProvider_getCandles_def Let_def)
next
  case (Some c)
  with assms obtain v where "JSON_parse e (payloadJson c) = Some v"
    by auto
  with Some show ?thesis
    by (simp add: BinanceProvider_getCandles_def Let_def parse_payload_def)
qed

theorem getCandles_never_throws_after_cache_read_witness:
  "fst (BinanceProvider_getCandles offline ''BTCUSDT'' (Some ''1d'') (Some 180) empty_world)
     = Inr error_candles"
proof -
  have f: "fresh (getCacheConfig empty_world (binance_candles_key ''BTCUSDT''
              (binance_interval (Some ''1d'')) (binance_limit (Some 180)))) = None"
    by (simp add: fresh_def getCacheConfig_def empty_world_def)
  have r: "fst (binance_rest_klines offline ''BTCUSDT'' (binance_interval (Some ''1d''))
                  (binance_limit (Some 180)) empty_world) = Inl FetchFailed"
    by (simp add: binance_rest_klines_def do_fetch_def offline_def)
  from getCandles_never_throws_after_cache_read
         [of empty_world "''BTCUSDT''" "Some ''1d''" "Some 180" offline] f r
  show ?thesis by simp
qed

subsection \<open>The REST fallback of the crypto quote\<close>

lemma trackSymbol_keeps:
  "cache (trackSymbol symbol w) = cache w"
  "clock (trackSymbol symbol w) = clock w"
  "calls (trackSymbol symbol w) = calls w"
  "memoryCache (trackSymbol symbol w) = memoryCache w"
  "table (trackSymbol symbol w) = table w"
  by (simp_all add: trackSymbol_def initWebSocket_def Let_def split: option.splits)

lemma getCacheConfig_trackSymbol:
  "getCacheConfig (trackSymbol symbol w) key = getCacheConfig w key"
  by (simp add: getCacheConfig_def trackSymbol_keeps split: option.splits)

lemma rest_quote_trackSymbol:
  "fst (binance_rest_quote e symbol (trackSymbol s w)) = fst (binance_rest_quote e symbol w)"
  by (simp add: binance_rest_quote_def do_fetch_def trackSymbol_keeps split: option.splits)

lemma rest_quote_calls:
  "calls (snd (binance_rest_quote e symbol w)) = calls w @ [binance_quote_url e symbol]"
  by (simp add: binance_rest_quote_def do_fetch_def split: option.splits)

lemma setCacheConfig_calls: "calls (setCacheConfig k p t s w) = calls w"
  by (simp add: setCacheConfig_def)

lemma set_prop_lookup: "map_of (set_prop kvs k v) k = Some v"
  by (induction kvs) auto

text \<open>
  C5, as stated, fails: with nothing in the hot cache, a persisted entry that is stale and
  a REST call that fails, the \<open>catch\<close> parses the persisted payload, and a payload that is
  not JSON makes \<open>getQuote\<close> throw although a persisted entry exists.
\<close>

theorem stale_quote_unparsable:
  "memoryCache (cached_world (binance_quote_key ''BTCUSDT'') ''{'' 500)
       (binance_quote_key ''BTCUSDT'') = None
   \<and> getCacheConfig (cached_world (binance_quote_key ''BTCUSDT'') ''{'' 500)
       (binance_quote_key ''BTCUSDT'')
     = Some \<lparr>payloadJson = ''{'', expiresAt = 500, isStale = True, source = ''TEST''\<rparr>
   \<and> fst (binance_rest_quote offline ''BTCUSDT''
            (cached_world (binance_quote_key ''BTCUSDT'') ''{'' 500)) = Inl FetchFailed
   \<and> fst (BinanceProvider_getQuote offline ''BTCUSDT''
            (cached_world (binance_quote_key ''BTCUSDT'') ''{'' 500)) = Inl SyntaxError"
  by (simp add: BinanceProvider_getQuote_def trackSymbol_def initWebSocket_def Let_def
      fresh_def getCacheConfig_def cached_world_def empty_world_def parse_payload_def
      binance_rest_quote_def do_fetch_def and_then_def
      offline_def parse3_def)

text \<open>
  C5, amended. With no hot-cache entry and the persisted entry absent or stale,
  \<open>getQuote\<close> makes exactly one REST call. If the call succeeds its quote is returned.
  If it fails and a persisted entry exists whose payload parses to an object, that object
  is returned with \<open>isStale\<close> set to true. It throws only when the REST call failed
  and there is no persisted entry, or the persisted payload does not parse to an object.
\<close>

theorem rest_fallback_quote:
  assumes hot: "memoryCache w (binance_quote_key symbol) = None"
      and miss: "fresh (getCacheConfig w (binance_quote_key symbol)) = None"
  shows
    "let r = BinanceProvider_getQuote e symbol w;
         rest = fst (binance_rest_quote e symbol w);
         cached = getCacheConfig w (binance_quote_key symbol)
     in calls (snd r) = calls w @ [binance_quote_url e symbol]
        \<and> (\<forall>payload. rest = Inr payload \<longrightarrow> fst r = Inr payload)
        \<and> (\<forall>err c kvs. rest = Inl err \<and> cached = Some c
               \<and> JSON_parse e (payloadJson c) = Some (JObj kvs)
             \<longrightarrow> fst r = Inr (JObj (set_prop kvs ''isStale'' (JBool True))))
        \<and> (\<forall>err. rest = Inl err \<and> cached = None
             \<longrightarrow> fst r = Inl (Error ''No crypto quote available''))
        \<and> (\<forall>err. fst r = Inl err
             \<longrightarrow> (\<exists>err'. rest = Inl err')
                 \<and> (cached = None
                      \<or> (\<exists>c. cached = Some c
                            \<and> (\<forall>kvs. JSON_parse e (payloadJson c) \<noteq> Some (JObj kvs)))))"
proof -
  obtain rr w1 where q: "binance_rest_quote e symbol (trackSymbol symbol w) = (rr, w1)"
    by (cases "binance_rest_quote e symbol (trackSymbol symbol w)")
  have rr: "fst (binance_rest_quote e symbol w) = rr"
    using rest_quote_trackSymbol [of e symbol symbol w] q by simp
  have c1: "calls w1 = calls w @ [binance_quote_url e symbol]"
    using rest_quote_calls [of e symbol "trackSymbol symbol w"] q
    by (simp add: trackSymbol_keeps)
  show ?thesis
  proof (cases rr)
    case (Inr payload)
    with hot miss q rr c1 show ?thesis
      by (simp add: BinanceProvider_getQuote_def Let_def trackSymbol_keeps
          getCacheConfig_trackSymbol setCacheConfig_calls)
  next
    case (Inl err)
    show ?thesis
    proof (cases "getCacheConfig w (binance_quote_key symbol)")
      case None
      with Inl hot miss q rr c1 show ?thesis
        by (simp add: BinanceProvider_getQuote_def Let_def trackSymbol_keeps
            getCacheConfig_trackSymbol)
    next
      case (Some c)
      with Inl hot miss q rr c1 show ?thesis
        by (auto simp add: BinanceProvider_getQuote_def Let_def trackSymbol_keeps
            getCacheConfig_trackSymbol parse_payload_def and_then_def mark_stale_def
            split: option.splits)
    qed
  qed
qed

theorem rest_fallback_quote_witness:
  "fst (BinanceProvider_getQuote offline ''BTCUSDT''
          (cached_world (binance_quote_key ''BTCUSDT'') ''{}'' 500))
     = Inr (JObj [(''isStale'', JBool True)])
   \<and> calls (snd (BinanceProvider_getQuote offline ''BTCUSDT''
          (cached_world (binance_quote_key ''BTCUSDT'') ''{}'' 500)))
     = [binance_quote_url offline ''BTCUSDT'']"
proof -
  let ?w = "cached_world (binance_quote_key ''BTCUSDT'') ''{}'' 500"
  have hot: "memoryCache ?w (binance_quote_key ''BTCUSDT'') = None"
    by (simp add: cached_world_def empty_world_def)
  have c: "getCacheConfig ?w (binance_quote_key ''BTCUSDT'')
            = Some \<lparr>payloadJson = ''{}'', expiresAt = 500, isStale = True, source = ''TEST''\<rparr>"
    by (simp add: getCacheConfig_def cached_world_def empty_world_def)
  have miss: "fresh (getCacheConfig ?w (binance_quote_key ''BTCUSDT'')) = None"
    by (simp add: c fresh_def)
  have rest: "fst (binance_rest_quote offline ''BTCUSDT'' ?w) = Inl FetchFailed"
    by (simp add: binance_rest_quote_def do_fetch_def offline_def)
  have p: "JSON_parse offline ''{}'' = Some (JObj [])"
    by (simp add: offline_def parse3_def)
  have cl: "calls ?w = []"
    by (simp add: cached_world_def empty_world_def)
  from rest_fallback_quote [OF hot miss, of offline] c rest p cl show ?thesis
    by (simp add: Let_def)
qed

subsection \<open>The stock quote fallback of the router\<close>


lemma and_then_Inr:
  "and_then r f = Inr y \<Longrightarrow> \<exists>x. r = Inr x \<and> f x = Inr y"
  by (cases r) (simp_all add: and_then_def)

lemma av_quote_offline:
  "AlphaVantageProvider_getQuote (offline\<lparr>finnhub_getQuote := f\<rparr>) ''AAPL'' empty_world
     = (Inl FetchFailed,
        empty_world\<lparr>calls := [av_quote_url (offline\<lparr>finnhub_getQuote := f\<rparr>) ''AAPL'']\<rparr>)"
  by (simp add: AlphaVantageProvider_getQuote_def av_quote_key_def fresh_def
      getCacheConfig_def empty_world_def do_fetch_def offline_def)




subsection \<open>The fields of a quote\<close>

text \<open>
  C8, as stated, fails: the time field of every quote the code builds is named \<open>ts\<close>;
  there is no \<open>timestamp\<close> field. Its value is the provider's, unchecked: when the
  secondary's answer has no \<open>t\<close>, the quote's \<open>ts\<close> is \<open>undefined\<close>.
\<close>

theorem quote_field_is_ts:
  "fst (MarketData_getQuote finnhub_up ''AAPL'' STOCK empty_world)
     = Inr (JObj
         [(''symbol'', JStr ''AAPL''),
          (''assetType'', JStr ''STOCK''),
          (''price'', JNum (Fin 190)),
          (''changeAbs'', JNum (Fin 2)),
          (''changePct'', JNum (Fin 1)),
          (''ts'', JNum (Fin 1700000000)),
          (''source'', JStr ''FINNHUB''),
          (''isStale'', JBool False)])
   \<and> \<not> quote_shape_spec (JObj
         [(''symbol'', JStr ''AAPL''),
          (''assetType'', JStr ''STOCK''),
          (''price'', JNum (Fin 190)),
          (''changeAbs'', JNum (Fin 2)),
          (''changePct'', JNum (Fin 1)),
          (''ts'', JNum (Fin 1700000000)),
          (''source'', JStr ''FINNHUB''),
          (''isStale'', JBool False)])
   \<and> fst (MarketData_getQuote finnhub_no_time ''AAPL'' STOCK empty_world)
     = Inr (JObj
         [(''symbol'', JStr ''AAPL''),
          (''assetType'', JStr ''STOCK''),
          (''price'', JNum (Fin 190)),
          (''changeAbs'', JNum (Fin 2)),
          (''changePct'', JNum (Fin 1)),
          (''ts'', JUndefined),
          (''source'', JStr ''FINNHUB''),
          (''isStale'', JBool False)])"
proof -
  have a: "AlphaVantageProvider_getQuote finnhub_up ''AAPL'' empty_world
            = (Inl FetchFailed, empty_world\<lparr>calls := [av_quote_url finnhub_up ''AAPL'']\<rparr>)"
    by (simp add: finnhub_up_def av_quote_offline)
  have b: "AlphaVantageProvider_getQuote finnhub_no_time ''AAPL'' empty_world
            = (Inl FetchFailed, empty_world\<lparr>calls := [av_quote_url finnhub_no_time ''AAPL'']\<rparr>)"
    by (simp add: finnhub_no_time_def av_quote_offline)
  have 1: "fst (MarketData_getQuote finnhub_up ''AAPL'' STOCK empty_world)
     = Inr (JObj
         [(''symbol'', JStr ''AAPL''),
          (''assetType'', JStr ''STOCK''),
          (''price'', JNum (Fin 190)),
          (''changeAbs'', JNum (Fin 2)),
          (''changePct'', JNum (Fin 1)),
          (''ts'', JNum (Fin 1700000000)),
          (''source'', JStr ''FINNHUB''),
          (''isStale'', JBool False)])"
  proof -
    have "fst (MarketData_getQuote finnhub_up ''AAPL'' STOCK empty_world)
           = and_then (finnhub_getQuote finnhub_up ''AAPL'') (finnhub_quote finnhub_up ''AAPL'')"
      by (simp add: MarketData_getQuote_def a)
    also have "\<dots> = Inr (JObj
         [(''symbol'', JStr ''AAPL''),
          (''assetType'', JStr ''STOCK''),
          (''price'', JNum (Fin 190)),
          (''changeAbs'', JNum (Fin 2)),
          (''changePct'', JNum (Fin 1)),
          (''ts'', JNum (Fin 1700000000)),
          (''source'', JStr ''FINNHUB''),
          (''isStale'', JBool False)])"
      by (simp add: and_then_def finnhub_quote_def finnhub_up_def offline_def)
    finally show ?thesis .
  qed
  have 2: "\<not> quote_shape_spec (JObj
         [(''symbol'', JStr ''AAPL''),
          (''assetType'', JStr ''STOCK''),
          (''price'', JNum (Fin 190)),
          (''changeAbs'', JNum (Fin 2)),
          (''changePct'', JNum (Fin 1)),
          (''ts'', JNum (Fin 1700000000)),
          (''source'', JStr ''FINNHUB''),
          (''isStale'', JBool False)])"
    by (simp add: quote_shape_spec_def is_integer_def)
  have 3: "fst (MarketData_getQuote finnhub_no_time ''AAPL'' STOCK empty_world)
     = Inr (JObj
         [(''symbol'', JStr ''AAPL''),
          (''assetType'', JStr ''STOCK''),
          (''price'', JNum (Fin 190)),
          (''changeAbs'', JNum (Fin 2)),
          (''changePct'', JNum (Fin 1)),
          (''ts'', JUndefined),
          (''source'', JStr ''FINNHUB''),
          (''isStale'', JBool False)])"
  proof -
    have "fst (MarketData_getQuote finnhub_no_time ''AAPL'' STOCK empty_world)
           = and_then (finnhub_getQuote finnhub_no_time ''AAPL'')
               (finnhub_quote finnhub_no_time ''AAPL'')"
      by (simp add: MarketData_getQuote_def b)
    also have "\<dots> = Inr (JObj
         [(''symbol'', JStr ''AAPL''),
          (''assetType'', JStr ''STOCK''),
          (''price'', JNum (Fin 190)),
          (''changeAbs'', JNum (Fin 2)),
          (''changePct'', JNum (Fin 1)),
          (''ts'', JUndefined),
          (''source'', JStr ''FINNHUB''),
          (''isStale'', JBool False)])"
      by (simp add: and_then_def finnhub_quote_def finnhub_no_time_def offline_def)
    finally show ?thesis .
  qed
  from 1 2 3 show ?thesis by blast
qed

lemma finnhub_quote_fields:
  assumes "finnhub_quote e symbol fhQuote = Inr q"
  shows "quote_shape_code q \<and> peek q ''symbol'' = JStr symbol
          \<and> peek q ''ts'' = peek fhQuote ''t'' \<and> peek q ''source'' = JStr ''FINNHUB''"
  using assms
  by (auto simp add: finnhub_quote_def quote_shape_code_def peek_def is_num_def is_str_def
      dest!: and_then_Inr split: if_splits)

lemma av_quote_fields:
  assumes "av_quote_payload e symbol data = Inr q"
  shows "quote_shape_code q \<and> peek q ''symbol'' = JStr symbol
          \<and> (\<exists>n. peek q ''ts'' = JNum n) \<and> peek q ''source'' = JStr ''ALPHAVANTAGE''"
  using assms
  by (auto simp add: av_quote_payload_def quote_shape_code_def peek_def is_num_def is_str_def
      dest!: and_then_Inr split: if_splits jsval.splits)

lemma binance_ws_fields:
  assumes "binance_ws_payload e parsed = Inr q"
  shows "quote_shape_code q \<and> peek q ''symbol'' = peek parsed ''s''
          \<and> peek q ''ts'' = peek parsed ''E'' \<and> peek q ''source'' = JStr ''BINANCE_WS''"
  using assms
  by (auto simp add: binance_ws_payload_def quote_shape_code_def peek_def is_num_def is_str_def
      dest!: and_then_Inr split: if_splits)

lemma binance_rest_fields:
  assumes "binance_rest_payload e data = Inr q"
  shows "quote_shape_code q \<and> peek q ''symbol'' = peek data ''symbol''
          \<and> peek q ''ts'' = peek data ''closeTime'' \<and> peek q ''source'' = JStr ''BINANCE_REST''"
  using assms
  by (auto simp add: binance_rest_payload_def quote_shape_code_def peek_def is_num_def is_str_def
      dest!: and_then_Inr split: if_splits)

text \<open>
  C8, amended. Every quote a quote path builds (the router's fallback from the secondary,
  \<open>getQuote\<close> of the primary, the live feed's message handler and the REST fallback of
  the crypto adapter) has exactly the fields symbol, assetType, price, changeAbs,
  changePct, ts, source and isStale, in this order: assetType is \<open>STOCK\<close> or \<open>CRYPTO\<close>,
  the three prices are numbers, source is the provider's tag, isStale is \<open>false\<close>. The
  symbol is the requested string in the stock paths and the provider's value in the
  crypto paths; \<open>ts\<close> is a number in the primary's path and the provider's value as it
  came in the others.
\<close>

theorem built_quote_fields:
  "(finnhub_quote e symbol fhQuote = Inr q
      \<longrightarrow> quote_shape_code q \<and> peek q ''symbol'' = JStr symbol
          \<and> peek q ''ts'' = peek fhQuote ''t'' \<and> peek q ''source'' = JStr ''FINNHUB'')
   \<and> (av_quote_payload e symbol data = Inr q
      \<longrightarrow> quote_shape_code q \<and> peek q ''symbol'' = JStr symbol
          \<and> (\<exists>n. peek q ''ts'' = JNum n) \<and> peek q ''source'' = JStr ''ALPHAVANTAGE'')
   \<and> (binance_ws_payload e parsed = Inr q
      \<longrightarrow> quote_shape_code q \<and> peek q ''symbol'' = peek parsed ''s''
          \<and> peek q ''ts'' = peek parsed ''E'' \<and> peek q ''source'' = JStr ''BINANCE_WS'')
   \<and> (binance_rest_payload e data = Inr q
      \<longrightarrow> quote_shape_code q \<and> peek q ''symbol'' = peek data ''symbol''
          \<and> peek q ''ts'' = peek data ''closeTime'' \<and> peek q ''source'' = JStr ''BINANCE_REST'')"
  using finnhub_quote_fields [of e symbol fhQuote q] av_quote_fields [of e symbol data q]
    binance_ws_fields [of e parsed q] binance_rest_fields [of e data q]
  by blast


theorem built_quote_fields_witness:
  "quote_shape_code (JObj
         [(''symbol'', JStr ''AAPL''),
          (''assetType'', JStr ''STOCK''),
          (''price'', JNum (Fin 190)),
          (''changeAbs'', JNum (Fin 2)),
          (''changePct'', JNum (Fin 1)),
          (''ts'', JUndefined),
          (''source'', JStr ''FINNHUB''),
          (''isStale'', JBool False)])
   \<and> quote_shape_code (JObj
         [(''symbol'', JStr ''AAPL''),
          (''assetType'', JStr ''STOCK''),
          (''price'', JNum NaN),
          (''changeAbs'', JNum NaN),
          (''changePct'', JNum NaN),
          (''ts'', JNum NaN),
          (''source'', JStr ''ALPHAVANTAGE''),
          (''isStale'', JBool False)])
   \<and> quote_shape_code (JObj
         [(''symbol'', JStr ''BTCUSDT''),
          (''assetType'', JStr ''CRYPTO''),
          (''price'', JNum NaN),
          (''changeAbs'', JNum NaN),
          (''changePct'', JNum NaN),
          (''ts'', JNum (Fin 5)),
          (''source'', JStr ''BINANCE_WS''),
          (''isStale'', JBool False)])
   \<and> quote_shape_code (JObj
         [(''symbol'', JUndefined),
          (''assetType'', JStr ''CRYPTO''),
          (''price'', JNum NaN),
          (''changeAbs'', JNum NaN),
          (''changePct'', JNum NaN),
          (''ts'', JUndefined),
          (''source'', JStr ''BINANCE_REST''),
          (''isStale'', JBool False)])"
proof -
  have f: "finnhub_quote offline ''AAPL''
             (JObj [(''c'', JNum (Fin 190)), (''d'', JNum (Fin 2)), (''dp'', JNum (Fin 1))])
           = Inr (JObj
         [(''symbol'', JStr ''AAPL''),
          (''assetType'', JStr ''STOCK''),
          (''price'', JNum (Fin 190)),
          (''changeAbs'', JNum (Fin 2)),
          (''changePct'', JNum (Fin 1)),
          (''ts'', JUndefined),
          (''source'', JStr ''FINNHUB''),
          (''isStale'', JBool False)])"
    by (simp add: finnhub_quote_def and_then_def offline_def)
  have a: "av_quote_payload offline ''AAPL''
             (JObj [(''Global Quote'', JObj
                [(''05. price'', JStr ''190.5''), (''09. change'', JStr ''2.5''),
                 (''10. change percent'', JStr ''1.3%''),
                 (''07. latest trading day'', JStr ''2024-01-02'')])])
           = Inr (JObj
         [(''symbol'', JStr ''AAPL''),
          (''assetType'', JStr ''STOCK''),
          (''price'', JNum NaN),
          (''changeAbs'', JNum NaN),
          (''changePct'', JNum NaN),
          (''ts'', JNum NaN),
          (''source'', JStr ''ALPHAVANTAGE''),
          (''isStale'', JBool False)])"
    by (simp add: av_quote_payload_def and_then_def js_or_def offline_def)
  have w: "binance_ws_payload offline
             (JObj [(''e'', JStr ''24hrTicker''), (''s'', JStr ''BTCUSDT''),
                    (''c'', JStr ''40000''), (''p'', JStr ''240''), (''P'', JStr ''1.2''),
                    (''E'', JNum (Fin 5))])
           = Inr (JObj
         [(''symbol'', JStr ''BTCUSDT''),
          (''assetType'', JStr ''CRYPTO''),
          (''price'', JNum NaN),
          (''changeAbs'', JNum NaN),
          (''changePct'', JNum NaN),
          (''ts'', JNum (Fin 5)),
          (''source'', JStr ''BINANCE_WS''),
          (''isStale'', JBool False)])"
    by (simp add: binance_ws_payload_def and_then_def offline_def)
  have r: "binance_rest_payload offline (JObj [])
           = Inr (JObj
         [(''symbol'', JUndefined),
          (''assetType'', JStr ''CRYPTO''),
          (''price'', JNum NaN),
          (''changeAbs'', JNum NaN),
          (''changePct'', JNum NaN),
          (''ts'', JUndefined),
          (''source'', JStr ''BINANCE_REST''),
          (''isStale'', JBool False)])"
    by (simp add: binance_rest_payload_def and_then_def offline_def)
  from built_quote_fields [where e = offline and symbol = "''AAPL''"] f
  have 1: "quote_shape_code (JObj
         [(''symbol'', JStr ''AAPL''),
          (''assetType'', JStr ''STOCK''),
          (''price'', JNum (Fin 190)),
          (''changeAbs'', JNum (Fin 2)),
          (''changePct'', JNum (Fin 1)),
          (''ts'', JUndefined),
          (''source'', JStr ''FINNHUB''),
          (''isStale'', JBool False)])"
    by blast
  from built_quote_fields [where e = offline and symbol = "''AAPL''"] a
  have 2: "quote_shape_code (JObj
         [(''symbol'', JStr ''AAPL''),
          (''assetType'', JStr ''STOCK''),
          (''price'', JNum NaN),
          (''changeAbs'', JNum NaN),
          (''changePct'', JNum NaN),
          (''ts'', JNum NaN),
          (''source'', JStr ''ALPHAVANTAGE''),
          (''isStale'', JBool False)])"
    by blast
  from built_quote_fields [where e = offline and symbol = "''AAPL''"] w
  have 3: "quote_shape_code (JObj
         [(''symbol'', JStr ''BTCUSDT''),
          (''assetType'', JStr ''CRYPTO''),
          (''price'', JNum NaN),
          (''changeAbs'', JNum NaN),
          (''changePct'', JNum NaN),
          (''ts'', JNum (Fin 5)),
          (''source'', JStr ''BINANCE_WS''),
          (''isStale'', JBool False)])"
    by blast
  from built_quote_fields [where e = offline and symbol = "''AAPL''"] r
  have 4: "quote_shape_code (JObj
         [(''symbol'', JUndefined),
          (''assetType'', JStr ''CRYPTO''),
          (''price'', JNum NaN),
          (''changeAbs'', JNum NaN),
          (''changePct'', JNum NaN),
          (''ts'', JUndefined),
          (''source'', JStr ''BINANCE_REST''),
          (''isStale'', JBool False)])"
    by blast
  from 1 2 3 4 show ?thesis by blast
qed

subsection \<open>The hot cache of the crypto quote\<close>

text \<open>
  C10. When the hot cache holds a quote for the symbol, \<open>getQuote\<close> returns that very
  value: no field of it is read, neither the clock nor the persisted cache is consulted,
  no REST call is made. The only effect is that the symbol is tracked. (The entry must be
  truthy for \<open>if (mem)\<close> to take it; the message handler, the only writer of quote
  entries, stores object literals, see \<open>on_message_hot_quotes\<close> and
  \<open>getQuote_memoryCache\<close>.)
\<close>

theorem hot_quote_returned:
  assumes "memoryCache w (binance_quote_key symbol) = Some q" and "truthy q"
  shows "BinanceProvider_getQuote e symbol w = (Inr q, trackSymbol symbol w)
       \<and> calls (trackSymbol symbol w) = calls w
       \<and> cache (trackSymbol symbol w) = cache w"
  using assms by (simp add: BinanceProvider_getQuote_def Let_def trackSymbol_keeps)

theorem hot_quote_returned_witness:
  "BinanceProvider_getQuote offline ''BTCUSDT''
      (hot_world ''BTCUSDT'' (JObj [(''price'', JNum (Fin 1)), (''ts'', JNum (Fin 0))]))
    = (Inr (JObj [(''price'', JNum (Fin 1)), (''ts'', JNum (Fin 0))]),
       trackSymbol ''BTCUSDT''
         (hot_world ''BTCUSDT'' (JObj [(''price'', JNum (Fin 1)), (''ts'', JNum (Fin 0))])))"
proof -
  have m: "memoryCache (hot_world ''BTCUSDT'' (JObj [(''price'', JNum (Fin 1)), (''ts'', JNum (Fin 0))]))
             (binance_quote_key ''BTCUSDT'')
           = Some (JObj [(''price'', JNum (Fin 1)), (''ts'', JNum (Fin 0))])"
    by (simp add: hot_world_def empty_world_def)
  have t: "truthy (JObj [(''price'', JNum (Fin 1)), (''ts'', JNum (Fin 0))])"
    by simp
  from hot_quote_returned [OF m t, of offline] show ?thesis by simp
qed

lemma getQuote_memoryCache:
  "memoryCache (snd (BinanceProvider_getQuote e symbol w)) = memoryCache w"
  by (auto simp add: BinanceProvider_getQuote_def Let_def trackSymbol_keeps
      binance_rest_quote_def do_fetch_def setCacheConfig_def
      split: option.splits sum.splits prod.splits if_splits)

lemma setCacheConfig_memoryCache: "memoryCache (setCacheConfig k p t s w) = memoryCache w"
  by (simp add: setCacheConfig_def)

lemma binance_ws_payload_object: "binance_ws_payload e parsed = Inr q \<Longrightarrow> truthy q"
  by (auto simp add: binance_ws_payload_def dest!: and_then_Inr)

lemma on_message_hot_quotes:
  assumes "hot_quotes_truthy w"
  shows "hot_quotes_truthy (on_message e data w)"
  using assms
  by (auto simp add: on_message_def hot_quotes_truthy_def Let_def setCacheConfig_memoryCache
      dest: binance_ws_payload_object
      split: option.splits sum.splits if_splits number.splits)

subsection \<open>Concurrent triggers of a screener job\<close>

lemma sequential_trigger_refused:
  "replies (run (\<lambda>r. ''SP500'')
              [FindUnique 0, Resume 0, RunJob, FindUnique 1, Resume 1] idle) 1
     = Some Conflict"
  by (simp add: idle_def runScreenerJob_def)

text \<open>
  C1. Two requests for the same universe whose reads both precede either continuation
  both find no RUNNING state, both hand a job to \<open>setImmediate\<close> and both are told the
  job is queued; neither is refused. The handler writes no job state at all, so the same
  happens when the second request arrives after the first was answered but before the
  first job has recorded RUNNING.
\<close>

theorem concurrent_triggers_both_granted:
  "replies (run (\<lambda>r. ''SP500'') [FindUnique 0, FindUnique 1, Resume 0, Resume 1] idle) 0
     = Some Queued
   \<and> replies (run (\<lambda>r. ''SP500'') [FindUnique 0, FindUnique 1, Resume 0, Resume 1] idle) 1
     = Some Queued
   \<and> queued (run (\<lambda>r. ''SP500'') [FindUnique 0, FindUnique 1, Resume 0, Resume 1] idle)
     = [''SP500'', ''SP500'']
   \<and> jobState (run (\<lambda>r. ''SP500'') [FindUnique 0, FindUnique 1, Resume 0, Resume 1] idle)
       ''SP500'' = None
   \<and> replies (run (\<lambda>r. ''SP500'') [FindUnique 0, Resume 0, FindUnique 1, Resume 1] idle) 1
     = Some Queued
   \<and> started (run (\<lambda>r. ''SP500'')
       [FindUnique 0, FindUnique 1, Resume 0, Resume 1, RunJob, RunJob] idle)
     = [''SP500'', ''SP500'']"
  by (simp add: idle_def runScreenerJob_def)

subsection \<open>Reading the history store\<close>

















subsection \<open>Writing the history store\<close>


















end
